theory Spec2Isabelle
  imports Main "HOL-Library.Word"
begin

unbundle bit_operations_syntax

section \<open>The QuantumSpace research platform backend (backend/server.py)\<close>

text \<open>
  The backend is a set of route handlers over one database collection
  (\<open>db.research\<close>) and one hosted language model. Each handler is embedded as a
  function from the environment of the call (what the operating system, the
  database driver and the model provider answer during that call) and the state
  that outlives the call (the collection and the process output) to the
  handler's result and the new state. A raised exception is the \<open>Inl\<close> branch
  of a sum.
\<close>

subsection \<open>Exceptions\<close>

text \<open>
  The exceptions the handlers meet, all of them instances of Python's
  \<open>Exception\<close> (the class every \<open>except Exception\<close> clause of the file catches):
  the framework's \<open>HTTPException\<close> with its status code and detail, the
  \<open>KeyError\<close> of a dictionary lookup, and any other exception, given by its
  message (a fault of the database driver or of the model client).
\<close>

datatype py_exception =
    HTTPException nat string
  | KeyError string
  | Exception string

fun str_nat :: "nat \<Rightarrow> string" where
  "str_nat n =
     (if n < 10 then [char_of (48 + n)]
      else str_nat (n div 10) @ [char_of (48 + n mod 10)])"

declare str_nat.simps [simp del]

text \<open>
  \<open>repr\<close> of a string, the characters taken as code points below 256: the
  string goes between single quotes, or between double quotes when it holds a
  single quote and no double quote; the backslash and the chosen quote get a
  backslash, tab, newline and carriage return are written \<open>\t\<close>, \<open>\n\<close>, \<open>\r\<close>,
  and every other character that is not printable is written \<open>\xhh\<close>.
\<close>

definition hexdigit :: "nat \<Rightarrow> char" where
  "hexdigit n = ''0123456789abcdef'' ! n"

definition repr_quote :: "string \<Rightarrow> char" where
  "repr_quote s = (if CHR 0x27 \<in> set s \<and> CHR 0x22 \<notin> set s then CHR 0x22 else CHR 0x27)"

definition repr_char :: "char \<Rightarrow> char \<Rightarrow> string" where
  "repr_char q c =
     (if c = q \<or> c = CHR 0x5C then [CHR 0x5C, c]
      else if c = CHR 0x09 then [CHR 0x5C, CHR ''t'']
      else if c = CHR 0x0A then [CHR 0x5C, CHR ''n'']
      else if c = CHR 0x0D then [CHR 0x5C, CHR ''r'']
      else if (of_char c :: nat) < 32 \<or> (127 \<le> (of_char c :: nat) \<and> (of_char c :: nat) \<le> 160)
              \<or> (of_char c :: nat) = 173
      then [CHR 0x5C, CHR ''x'', hexdigit (of_char c div 16), hexdigit (of_char c mod 16)]
      else [c])"

definition repr_str :: "string \<Rightarrow> string" where
  "repr_str s = (let q = repr_quote s in [q] @ concat (map (repr_char q) s) @ [q])"

text \<open>
  \<open>str(e)\<close>: the framework prints an \<open>HTTPException\<close> as status and detail, a
  \<open>KeyError\<close> prints the \<open>repr\<close> of the key, any other exception prints its
  message.
\<close>

fun str_exc :: "py_exception \<Rightarrow> string" where
  "str_exc (HTTPException code detail) = str_nat code @ '': '' @ detail"
| "str_exc (KeyError k) = repr_str k"
| "str_exc (Exception m) = m"

subsection \<open>The standard library: uuid4 and datetime\<close>

text \<open>
  \<open>uuid.uuid4()\<close> takes 16 random bytes, clears and sets the variant and version
  bits, and \<open>str\<close> prints the 128-bit value as 32 lower-case hexadecimal digits
  in groups of 8, 4, 4, 4 and 12.
\<close>

definition uuid4 :: "128 word \<Rightarrow> 128 word" where
  "uuid4 r =
     (let i1 = r AND NOT (push_bit 48 0xc000);
          i2 = i1 OR push_bit 48 0x8000;
          i3 = i2 AND NOT (push_bit 64 0xf000)
      in i3 OR push_bit 76 4)"

definition hex32 :: "128 word \<Rightarrow> string" where
  "hex32 u = map (\<lambda>i. hexdigit (unat (drop_bit (4 * (31 - i)) u AND 15))) [0..<32]"

definition str_uuid :: "128 word \<Rightarrow> string" where
  "str_uuid u =
     (let hex = hex32 u
      in take 8 hex @ ''-'' @ take 4 (drop 8 hex) @ ''-'' @ take 4 (drop 12 hex) @ ''-''
         @ take 4 (drop 16 hex) @ ''-'' @ drop 20 hex)"

text \<open>
  A naive \<open>datetime\<close>, as \<open>datetime.now()\<close> returns it, compares field by field;
  \<open>isoformat()\<close> prints \<open>YYYY-MM-DDTHH:MM:SS\<close> and, when the microsecond is not
  zero, a dot and six digits.
\<close>

record datetime =
  year :: nat
  month :: nat
  day :: nat
  hour :: nat
  minute :: nat
  second :: nat
  microsecond :: nat

definition zpad :: "nat \<Rightarrow> nat \<Rightarrow> string" where
  "zpad w n = replicate (w - length (str_nat n)) CHR ''0'' @ str_nat n"

definition isoformat :: "datetime \<Rightarrow> string" where
  "isoformat dt =
     zpad 4 (year dt) @ ''-'' @ zpad 2 (month dt) @ ''-'' @ zpad 2 (day dt) @ ''T''
     @ zpad 2 (hour dt) @ '':'' @ zpad 2 (minute dt) @ '':'' @ zpad 2 (second dt)
     @ (if microsecond dt = 0 then [] else ''.'' @ zpad 6 (microsecond dt))"




subsection \<open>Request and response models\<close>

record ChatMessage =
  message :: string

record ChatResponse =
  response :: string

record ResearchItem =
  title :: string
  category :: string
  description :: string
  findings :: string

text \<open>
  \<open>ResearchResponse\<close> has the fields id, title, category, description, findings
  and created_at; the selectors carry the prefix \<open>r_\<close> to keep them apart from
  those of \<open>ResearchItem\<close> and from the identity function.
\<close>

record ResearchResponse =
  r_id :: string
  r_title :: string
  r_category :: string
  r_description :: string
  r_findings :: string
  r_created_at :: string

subsection \<open>The language model client\<close>

text \<open>
  What the handler hands to the client library: the arguments of \<open>LlmChat(...)\<close>
  and of \<open>with_model\<close>, and the \<open>UserMessage\<close> sent.
\<close>

record LlmChat =
  api_key :: string
  session_id :: string
  system_message :: string
  model_provider :: string
  model_name :: string

record UserMessage =
  text_of :: string

subsection \<open>Environment and state\<close>

text \<open>
  A stored document is a dictionary from field names to strings, as every
  document the service writes is. The database's own \<open>_id\<close> field, which no
  handler reads, is left out.
\<close>

type_synonym document = "(string \<times> string) list"

text \<open>
  The environment of one handler call. The oracles are indexed by the number of
  the call within the handler: \<open>urandom e k\<close> is the randomness of the k-th
  \<open>uuid.uuid4()\<close>, \<open>clock e k\<close> the k-th \<open>datetime.now()\<close>. \<open>db_fault e k\<close> tells
  whether the k-th database call raises: \<open>None\<close> when it goes through,
  \<open>Some (m, n)\<close> when it raises an exception with message \<open>m\<close>; a single-document
  operation that raises leaves the collection as it was, and an \<open>insert_many\<close>
  that raises has written the first \<open>n\<close> documents of its batch, since the
  database is atomic for single documents only. \<open>inserted_id e\<close> is the
  \<open>inserted_id\<close> an \<open>insert_one\<close> reports (\<open>None\<close> for a value Python takes
  as false). \<open>llm e k\<close> is the provider's answer to the k-th \<open>send_message\<close>.
\<close>

record env =
  emergent_llm_key :: string
  urandom :: "nat \<Rightarrow> 128 word"
  clock :: "nat \<Rightarrow> datetime"
  db_fault :: "nat \<Rightarrow> (string \<times> nat) option"
  inserted_id :: "nat option"
  llm :: "nat \<Rightarrow> LlmChat \<Rightarrow> UserMessage \<Rightarrow> py_exception + string"

text \<open>
  The state that outlives a call: the collection \<open>db.research\<close>, in the
  database's native order, and the lines printed to the process output.
\<close>

record world =
  db_research :: "document list"
  stdout :: "string list"

definition print :: "string \<Rightarrow> world \<Rightarrow> world" where
  "print line w = w\<lparr>stdout := stdout w @ [line]\<rparr>"

subsection \<open>The collection's operations\<close>

text \<open>
  A query filter is a dictionary; a document matches when it has every field
  of the filter with the filter's value. The empty filter matches everything.
\<close>

definition matches :: "document \<Rightarrow> document \<Rightarrow> bool" where
  "matches flt d = list_all (\<lambda>(k, v). map_of d k = Some v) flt"

definition count_documents :: "document \<Rightarrow> document list \<Rightarrow> nat" where
  "count_documents flt c = length (filter (matches flt) c)"

fun delete_one :: "document \<Rightarrow> document list \<Rightarrow> nat \<times> document list" where
  "delete_one flt [] = (0, [])"
| "delete_one flt (d # ds) =
     (if matches flt d then (1, ds)
      else (case delete_one flt ds of (n, ds') \<Rightarrow> (n, d # ds')))"

definition insert_one :: "document \<Rightarrow> document list \<Rightarrow> document list" where
  "insert_one d c = c @ [d]"

definition insert_many :: "document list \<Rightarrow> document list \<Rightarrow> document list" where
  "insert_many ds c = c @ ds"

text \<open>\<open>item[k]\<close> on a dictionary: the value, or a \<open>KeyError\<close>.\<close>

definition getitem :: "document \<Rightarrow> string \<Rightarrow> py_exception + string" where
  "getitem d k = (case map_of d k of None \<Rightarrow> Inl (KeyError k) | Some v \<Rightarrow> Inr v)"

subsection \<open>Route handlers\<close>

record category_info =
  cat_id :: string
  cat_name :: string
  cat_description :: string

text \<open>\<open>GET /api/research/categories\<close>: no database call, no state.\<close>

definition get_research_categories :: "category_info list" where
  "get_research_categories =
     [\<lparr>cat_id = ''space'', cat_name = ''Space Research'',
        cat_description = ''Space exploration and satellite technology''\<rparr>,
      \<lparr>cat_id = ''quantum'', cat_name = ''Quantum Theory'',
        cat_description = ''Quantum computing and quantum mechanics''\<rparr>,
      \<lparr>cat_id = ''ai'', cat_name = ''AI Programming'',
        cat_description = ''Artificial intelligence and machine learning''\<rparr>,
      \<lparr>cat_id = ''database'', cat_name = ''Database Technology'',
        cat_description = ''Data management and analytics''\<rparr>]"

subsection \<open>The chat relay\<close>

text \<open>The system prompt of \<open>get_llm_chat\<close>, line by line.\<close>

definition llm_system_message :: string where
  "llm_system_message =
     ''You are an advanced AI assistant specialized in space research, quantum theory, and AI programming. You have expertise in:\<newline>'' @
     ''\<newline>'' @
     ''1. Space Research & Technology:\<newline>'' @
     ''   - Satellite technology and space missions\<newline>'' @
     ''   - Astronomical data analysis\<newline>'' @
     ''   - Space exploration programs\<newline>'' @
     ''   - Rocket technology and propulsion systems\<newline>'' @
     ''   - Space station operations\<newline>'' @
     ''\<newline>'' @
     ''2. Quantum Theory & Computing:\<newline>'' @
     ''   - Quantum mechanics principles\<newline>'' @
     ''   - Quantum computing algorithms\<newline>'' @
     ''   - Quantum entanglement and superposition\<newline>'' @
     ''   - Quantum cryptography\<newline>'' @
     ''   - Quantum machine learning\<newline>'' @
     ''\<newline>'' @
     ''3. AI Programming & Database Systems:\<newline>'' @
     ''   - Machine learning models for research\<newline>'' @
     ''   - Data analysis and visualization\<newline>'' @
     ''   - Database management for research data\<newline>'' @
     ''   - Predictive analytics for space missions\<newline>'' @
     ''\<newline>'' @
     ''Provide clear, educational, and engaging explanations suitable for researchers, investors, and the general public. Use analogies when helpful and always maintain scientific accuracy.''"

definition get_llm_chat :: "env \<Rightarrow> LlmChat" where
  "get_llm_chat e =
     \<lparr>api_key = emergent_llm_key e,
      session_id = ''quantumspace-chat'',
      system_message = llm_system_message,
      model_provider = ''openai'',
      model_name = ''gpt-4o-mini''\<rparr>"

text \<open>
  \<open>POST /api/chat\<close>. A new \<open>LlmChat\<close> is built on every call and dropped
  when the call ends; the one \<open>send_message\<close> is the client call number 0.
  Any exception is printed and turned into status 500.
\<close>

definition chat_with_ai ::
  "env \<Rightarrow> ChatMessage \<Rightarrow> world \<Rightarrow> (py_exception + ChatResponse) \<times> world" where
  "chat_with_ai e chat_message w =
     (let chat = get_llm_chat e;
          user_message = \<lparr>text_of = message chat_message\<rparr>
      in case llm e 0 chat user_message of
           Inr reply \<Rightarrow> (Inr \<lparr>response = reply\<rparr>, w)
         | Inl ex \<Rightarrow>
             (Inl (HTTPException 500 (''Error processing chat message: '' @ str_exc ex)),
              print (''Chat error: '' @ str_exc ex) w))"

subsection \<open>The research store\<close>

text \<open>
  The k-th database call of a handler, given what the call computes when it
  goes through: it raises when the environment says so.
\<close>

definition db_call :: "env \<Rightarrow> nat \<Rightarrow> 'a \<Rightarrow> py_exception + 'a" where
  "db_call e k r = (case db_fault e k of None \<Rightarrow> Inr r | Some (m, n) \<Rightarrow> Inl (Exception m))"

text \<open>
  \<open>ResearchResponse(id=item["id"], title=item["title"], ...)\<close>: the arguments are
  evaluated in the order written, and the first missing key raises.
\<close>

definition research_response :: "document \<Rightarrow> py_exception + ResearchResponse" where
  "research_response item =
     (case getitem item ''id'' of Inl ex \<Rightarrow> Inl ex | Inr i \<Rightarrow>
      case getitem item ''title'' of Inl ex \<Rightarrow> Inl ex | Inr t \<Rightarrow>
      case getitem item ''category'' of Inl ex \<Rightarrow> Inl ex | Inr c \<Rightarrow>
      case getitem item ''description'' of Inl ex \<Rightarrow> Inl ex | Inr d \<Rightarrow>
      case getitem item ''findings'' of Inl ex \<Rightarrow> Inl ex | Inr f \<Rightarrow>
      case getitem item ''created_at'' of Inl ex \<Rightarrow> Inl ex | Inr ca \<Rightarrow>
        Inr \<lparr>r_id = i, r_title = t, r_category = c, r_description = d,
             r_findings = f, r_created_at = ca\<rparr>)"

text \<open>The loop \<open>async for item in db.research.find(): research_items.append(...)\<close>.\<close>

fun append_items ::
  "document list \<Rightarrow> ResearchResponse list \<Rightarrow> py_exception + ResearchResponse list" where
  "append_items [] research_items = Inr research_items"
| "append_items (item # rest) research_items =
     (case research_response item of
        Inl ex \<Rightarrow> Inl ex
      | Inr r \<Rightarrow> append_items rest (research_items @ [r]))"

definition get_research_data_try :: "env \<Rightarrow> world \<Rightarrow> py_exception + ResearchResponse list" where
  "get_research_data_try e w =
     (case db_call e 0 (db_research w) of
        Inl ex \<Rightarrow> Inl ex
      | Inr found \<Rightarrow> append_items found [])"

text \<open>\<open>GET /api/research\<close>.\<close>

definition get_research_data ::
  "env \<Rightarrow> world \<Rightarrow> (py_exception + ResearchResponse list) \<times> world" where
  "get_research_data e w =
     (case get_research_data_try e w of
        Inr research_items \<Rightarrow> (Inr research_items, w)
      | Inl ex \<Rightarrow>
          (Inl (HTTPException 500 (''Error fetching research data: '' @ str_exc ex)),
           print (''Database error: '' @ str_exc ex) w))"

definition research_doc_of ::
  "string \<Rightarrow> ResearchItem \<Rightarrow> string \<Rightarrow> document" where
  "research_doc_of research_id research created_at =
     [(''id'', research_id),
      (''title'', title research),
      (''category'', category research),
      (''description'', description research),
      (''findings'', findings research),
      (''created_at'', created_at)]"

definition add_research_data_try ::
  "env \<Rightarrow> ResearchItem \<Rightarrow> world \<Rightarrow> (py_exception + ResearchResponse) \<times> world" where
  "add_research_data_try e research w =
     (let research_id = str_uuid (uuid4 (urandom e 0));
          created_at = isoformat (clock e 0);
          research_doc = research_doc_of research_id research created_at
      in case db_call e 0 (insert_one research_doc (db_research w)) of
           Inl ex \<Rightarrow> (Inl ex, w)
         | Inr stored \<Rightarrow>
             (if inserted_id e \<noteq> None
              then Inr \<lparr>r_id = research_id, r_title = title research,
                         r_category = category research,
                         r_description = description research,
                         r_findings = findings research,
                         r_created_at = created_at\<rparr>
              else Inl (HTTPException 500 ''Failed to insert research data''),
              w\<lparr>db_research := stored\<rparr>))"

text \<open>
  \<open>POST /api/research\<close>. The \<open>except Exception\<close> clause also catches the
  \<open>HTTPException\<close> raised inside the \<open>try\<close> block.
\<close>

definition add_research_data ::
  "env \<Rightarrow> ResearchItem \<Rightarrow> world \<Rightarrow> (py_exception + ResearchResponse) \<times> world" where
  "add_research_data e research w =
     (case add_research_data_try e research w of
        (Inr r, w') \<Rightarrow> (Inr r, w')
      | (Inl ex, w') \<Rightarrow>
          (Inl (HTTPException 500 (''Error adding research data: '' @ str_exc ex)),
           print (''Database error: '' @ str_exc ex) w'))"

record deleted =
  del_message :: string
  del_id :: string

definition delete_research_data_try ::
  "env \<Rightarrow> string \<Rightarrow> world \<Rightarrow> (py_exception + deleted) \<times> world" where
  "delete_research_data_try e research_id w =
     (case db_call e 0 (delete_one [(''id'', research_id)] (db_research w)) of
        Inl ex \<Rightarrow> (Inl ex, w)
      | Inr (deleted_count, remaining) \<Rightarrow>
          (if deleted_count = 0
           then Inl (HTTPException 404 ''Research item not found'')
           else Inr \<lparr>del_message = ''Research item deleted successfully'',
                      del_id = research_id\<rparr>,
           w\<lparr>db_research := remaining\<rparr>))"

text \<open>
  \<open>DELETE /api/research/{research_id}\<close>. An \<open>HTTPException\<close> is raised again as
  it is; any other exception becomes status 500.
\<close>

definition delete_research_data ::
  "env \<Rightarrow> string \<Rightarrow> world \<Rightarrow> (py_exception + deleted) \<times> world" where
  "delete_research_data e research_id w =
     (case delete_research_data_try e research_id w of
        (Inr r, w') \<Rightarrow> (Inr r, w')
      | (Inl (HTTPException code detail), w') \<Rightarrow> (Inl (HTTPException code detail), w')
      | (Inl ex, w') \<Rightarrow>
          (Inl (HTTPException 500 (''Error deleting research data: '' @ str_exc ex)),
           print (''Database error: '' @ str_exc ex) w'))"

record category_counts =
  space :: nat
  quantum :: nat
  ai :: nat
  database :: nat

record research_stats =
  total_research :: nat
  categories :: category_counts
  last_updated :: string

definition get_research_stats_try :: "env \<Rightarrow> world \<Rightarrow> py_exception + research_stats" where
  "get_research_stats_try e w =
     (case db_call e 0 (count_documents [] (db_research w)) of
        Inl ex \<Rightarrow> Inl ex | Inr total_count \<Rightarrow>
      case db_call e 1 (count_documents [(''category'', ''space'')] (db_research w)) of
        Inl ex \<Rightarrow> Inl ex | Inr space_count \<Rightarrow>
      case db_call e 2 (count_documents [(''category'', ''quantum'')] (db_research w)) of
        Inl ex \<Rightarrow> Inl ex | Inr quantum_count \<Rightarrow>
      case db_call e 3 (count_documents [(''category'', ''ai'')] (db_research w)) of
        Inl ex \<Rightarrow> Inl ex | Inr ai_count \<Rightarrow>
      case db_call e 4 (count_documents [(''category'', ''database'')] (db_research w)) of
        Inl ex \<Rightarrow> Inl ex | Inr database_count \<Rightarrow>
        Inr \<lparr>total_research = total_count,
             categories = \<lparr>space = space_count, quantum = quantum_count,
                            ai = ai_count, database = database_count\<rparr>,
             last_updated = isoformat (clock e 0)\<rparr>)"

text \<open>\<open>GET /api/research/stats\<close>.\<close>

definition get_research_stats ::
  "env \<Rightarrow> world \<Rightarrow> (py_exception + research_stats) \<times> world" where
  "get_research_stats e w =
     (case get_research_stats_try e w of
        Inr stats \<Rightarrow> (Inr stats, w)
      | Inl ex \<Rightarrow>
          (Inl (HTTPException 500 (''Error fetching research statistics: '' @ str_exc ex)),
           print (''Database error: '' @ str_exc ex) w))"

subsection \<open>Startup seeding\<close>

text \<open>
  The four sample documents. Each dictionary takes its own \<open>uuid.uuid4()\<close> and
  its own \<open>datetime.now()\<close>, in the order written.
\<close>

definition sample_data :: "env \<Rightarrow> document list" where
  "sample_data e =
     [ [(''id'', str_uuid (uuid4 (urandom e 0))),
       (''title'', ''Mars Rover Autonomous Navigation System''),
       (''category'', ''space''),
       (''description'', ''Development of advanced AI-driven navigation systems for Mars exploration rovers, enabling autonomous decision-making in challenging terrain.''),
       (''findings'', ''Successfully implemented machine learning algorithms that improved navigation accuracy by 85% and reduced mission planning time by 60%.''),
       (''created_at'', isoformat (clock e 0))],
      [(''id'', str_uuid (uuid4 (urandom e 1))),
       (''title'', ''Quantum Entanglement Communication Protocol''),
       (''category'', ''quantum''),
       (''description'', ''Research into quantum entanglement-based communication systems for secure space-to-Earth data transmission.''),
       (''findings'', ''Achieved quantum entanglement stability over 1000km distance with 99.9% fidelity, opening possibilities for unhackable space communications.''),
       (''created_at'', isoformat (clock e 1))],
      [(''id'', str_uuid (uuid4 (urandom e 2))),
       (''title'', ''AI-Powered Astronomical Data Analysis''),
       (''category'', ''ai''),
       (''description'', ''Machine learning models for automated detection and classification of celestial objects from telescope data.''),
       (''findings'', ''Developed neural networks that can identify exoplanets with 95% accuracy, processing 1000x faster than traditional methods.''),
       (''created_at'', isoformat (clock e 2))],
      [(''id'', str_uuid (uuid4 (urandom e 3))),
       (''title'', ''Distributed Space Mission Database Architecture''),
       (''category'', ''database''),
       (''description'', ''Scalable database systems for managing vast amounts of space mission data across multiple research institutions.''),
       (''findings'', ''Implemented blockchain-based data integrity system handling 10TB+ daily space mission data with real-time global synchronization.''),
       (''created_at'', isoformat (clock e 3))] ]"

text \<open>
  The \<open>try\<close> block of the startup handler: the count is database call 0, the
  \<open>insert_many\<close> database call 1. An \<open>insert_many\<close> that raises has written
  the first documents of the batch, as many as the environment says.
\<close>

definition startup_event_try :: "env \<Rightarrow> world \<Rightarrow> (py_exception + unit) \<times> world" where
  "startup_event_try e w =
     (case db_call e 0 (count_documents [] (db_research w)) of
        Inl ex \<Rightarrow> (Inl ex, w)
      | Inr existing_count \<Rightarrow>
          (if existing_count = 0
           then (case db_fault e 1 of
                   Some (m, n) \<Rightarrow>
                     (Inl (Exception m),
                      w\<lparr>db_research := insert_many (take n (sample_data e)) (db_research w)\<rparr>)
                 | None \<Rightarrow>
                     (Inr (),
                      print ''QuantumSpace Research Platform API started successfully''
                        (print ''Database initialized with sample research data''
                           (w\<lparr>db_research := insert_many (sample_data e) (db_research w)\<rparr>))))
           else (Inr (), print ''QuantumSpace Research Platform API started successfully'' w)))"

text \<open>The startup handler: the \<open>except Exception\<close> clause prints and returns.\<close>

definition startup_event :: "env \<Rightarrow> world \<Rightarrow> (py_exception + unit) \<times> world" where
  "startup_event e w =
     (case startup_event_try e w of
        (Inr u, w') \<Rightarrow> (Inr (), w')
      | (Inl ex, w') \<Rightarrow> (Inr (), print (''Startup error: '' @ str_exc ex) w'))"

subsection \<open>The application\<close>

text \<open>The routes of \<open>app\<close>, by method and path, and what each one answers.\<close>

datatype request =
    GetRoot
  | GetHealth
  | PostChat ChatMessage
  | GetResearch
  | PostResearch ResearchItem
  | DeleteResearch string
  | GetCategories
  | GetStats

datatype reply =
    RootReply string string
  | HealthReply string string
  | ChatReply ChatResponse
  | ResearchList "ResearchResponse list"
  | ResearchAdded ResearchResponse
  | ResearchDeleted deleted
  | CategoriesReply "category_info list"
  | StatsReply research_stats

definition root :: "string \<times> string" where
  "root = (''QuantumSpace Research Platform API'', ''operational'')"

definition health_check :: "env \<Rightarrow> string \<times> string" where
  "health_check e = (''healthy'', isoformat (clock e 0))"

definition answer ::
  "('a \<Rightarrow> reply) \<Rightarrow> (py_exception + 'a) \<times> world \<Rightarrow> (py_exception + reply) \<times> world" where
  "answer f rw = (case rw of (Inl ex, w) \<Rightarrow> (Inl ex, w) | (Inr r, w) \<Rightarrow> (Inr (f r), w))"

fun app :: "env \<Rightarrow> request \<Rightarrow> world \<Rightarrow> (py_exception + reply) \<times> world" where
  "app e GetRoot w = (Inr (RootReply (fst root) (snd root)), w)"
| "app e GetHealth w = (Inr (HealthReply (fst (health_check e)) (snd (health_check e))), w)"
| "app e (PostChat chat_message) w = answer ChatReply (chat_with_ai e chat_message w)"
| "app e GetResearch w = answer ResearchList (get_research_data e w)"
| "app e (PostResearch research) w = answer ResearchAdded (add_research_data e research w)"
| "app e (DeleteResearch research_id) w =
     answer ResearchDeleted (delete_research_data e research_id w)"
| "app e GetCategories w = (Inr (CategoriesReply get_research_categories), w)"
| "app e GetStats w = answer StatsReply (get_research_stats e w)"

text \<open>
  A run of the process after startup: the requests are handled one after the
  other, each in its own environment.
\<close>

fun serve :: "(env \<times> request) list \<Rightarrow> world \<Rightarrow> (py_exception + reply) list \<times> world" where
  "serve [] w = ([], w)"
| "serve ((e, req) # rest) w =
     (case app e req w of
        (r, w') \<Rightarrow> (case serve rest w' of (rs, w'') \<Rightarrow> (r # rs, w'')))"

subsection \<open>Example environments and states\<close>

text \<open>
  An environment in which nothing fails: the database answers every call, the
  driver reports an \<open>inserted_id\<close>, and the model answers every message.
\<close>

definition quiet_env :: env where
  "quiet_env =
     \<lparr>emergent_llm_key = ''sk-test'',
      urandom = (\<lambda>k. 0x123e4567e89b12d3a456426614174000 + word_of_nat k),
      clock = (\<lambda>k. \<lparr>year = 2025, month = 3, day = 9, hour = 14, minute = 5,
                      second = 7, microsecond = k\<rparr>),
      db_fault = (\<lambda>k. None),
      inserted_id = Some 1,
      llm = (\<lambda>k chat user_message. Inr (''re: '' @ text_of user_message))\<rparr>"

text \<open>The model client fails on the first \<open>send_message\<close> and would answer a second one.\<close>

definition llm_down_env :: env where
  "llm_down_env =
     quiet_env\<lparr>llm := (\<lambda>k chat user_message.
        if k = 0 then Inl (Exception ''timeout'') else Inr ''late reply'')\<rparr>"

definition empty_world :: world where
  "empty_world = \<lparr>db_research = [], stdout = []\<rparr>"

text \<open>The six fields the list route reads from every stored document.\<close>

definition response_fields :: "string list" where
  "response_fields =
     [''id'', ''title'', ''category'', ''description'', ''findings'', ''created_at'']"

text \<open>A collection holding one complete document, and one holding a document without findings.\<close>

definition complete_doc :: document where
  "complete_doc =
     [(''id'', ''a1''), (''title'', ''T''), (''category'', ''ai''), (''description'', ''D''),
      (''findings'', ''F''), (''created_at'', ''2025-03-09T14:05:07'')]"

definition complete_world :: world where
  "complete_world = \<lparr>db_research = [complete_doc], stdout = []\<rparr>"

definition broken_world :: world where
  "broken_world =
     \<lparr>db_research =
        [complete_doc,
         [(''id'', ''b2''), (''title'', ''T''), (''category'', ''ai''), (''description'', ''D''),
          (''created_at'', ''2025-03-09T14:05:07'')] ],
      stdout = []\<rparr>"

text \<open>A collection in which two documents share the id \<open>a1\<close>.\<close>

definition other_doc :: document where
  "other_doc =
     [(''id'', ''b2''), (''title'', ''U''), (''category'', ''space''), (''description'', ''E''),
      (''findings'', ''G''), (''created_at'', ''2025-03-09T14:05:08'')]"

definition duplicate_world :: world where
  "duplicate_world = \<lparr>db_research = [complete_doc, other_doc, complete_doc], stdout = []\<rparr>"

text \<open>
  Environments in which the database fails during startup: at the count, and
  at the \<open>insert_many\<close> after two of the four documents were written.
\<close>

definition count_fault_env :: env where
  "count_fault_env =
     quiet_env\<lparr>db_fault := (\<lambda>k. if k = 0 then Some (''no server'', 0) else None)\<rparr>"

definition seed_fault_env :: env where
  "seed_fault_env =
     quiet_env\<lparr>db_fault := (\<lambda>k. if k = 1 then Some (''connection lost'', 2) else None)\<rparr>"




text \<open>
  The request of the spec's scenario, the collection after it was added once
  to an empty collection, and after it was added a second time, both times in
  the environment \<open>quiet_env\<close> (so with the same random draw).
\<close>

definition scenario_item :: ResearchItem where
  "scenario_item = \<lparr>title = ''T'', category = ''ai'', description = ''D'', findings = ''F''\<rparr>"

definition once_added_world :: world where
  "once_added_world = snd (add_research_data quiet_env scenario_item empty_world)"

definition twice_added_world :: world where
  "twice_added_world = snd (add_research_data quiet_env scenario_item once_added_world)"



section \<open>Properties\<close>

subsection \<open>Categories\<close>

text \<open>
  Claim C7. \<open>Categories()\<close> answers the same hard-coded list of four category
  descriptors (id, display name, description) for space, quantum, ai and
  database, whatever the environment and whatever is stored, and leaves the
  state as it was.
\<close>

theorem categories_static:
  "app e GetCategories w = (Inr (CategoriesReply get_research_categories), w)
   \<and> fst (app e GetCategories w) = fst (app e' GetCategories w')
   \<and> length get_research_categories = 4
   \<and> map cat_id get_research_categories = [''space'', ''quantum'', ''ai'', ''database'']
   \<and> map cat_name get_research_categories =
       [''Space Research'', ''Quantum Theory'', ''AI Programming'', ''Database Technology'']
   \<and> map cat_description get_research_categories =
       [''Space exploration and satellite technology'',
        ''Quantum computing and quantum mechanics'',
        ''Artificial intelligence and machine learning'',
        ''Data management and analytics'']"
  by (simp add: get_research_categories_def)

subsection \<open>The chat relay\<close>

text \<open>
  Claim C5. When the model client raises an exception, \<open>Ask(message)\<close> fails
  with status 500 and a detail that wraps the exception's string; when the
  client answers, the answer is returned unchanged in the \<open>response\<close> field.
  Nothing is retried: the result is fixed by the client's answer to the first
  and only \<open>send_message\<close>, whatever it would answer to a later one.
\<close>

theorem chat_with_ai_relays:
  "(llm e 0 (get_llm_chat e) \<lparr>text_of = message chat_message\<rparr> = Inl ex \<longrightarrow>
      chat_with_ai e chat_message w =
        (Inl (HTTPException 500 (''Error processing chat message: '' @ str_exc ex)),
         print (''Chat error: '' @ str_exc ex) w))
   \<and> (llm e 0 (get_llm_chat e) \<lparr>text_of = message chat_message\<rparr> = Inr reply \<longrightarrow>
      chat_with_ai e chat_message w = (Inr \<lparr>response = reply\<rparr>, w))
   \<and> (emergent_llm_key e' = emergent_llm_key e \<and> llm e' 0 = llm e 0 \<longrightarrow>
      fst (chat_with_ai e' chat_message w) = fst (chat_with_ai e chat_message w))"
  by (simp add: chat_with_ai_def get_llm_chat_def Let_def split: sum.splits)

theorem chat_with_ai_relays_witness:
  "fst (chat_with_ai llm_down_env \<lparr>message = ''hello''\<rparr> empty_world)
     = Inl (HTTPException 500 ''Error processing chat message: timeout'')
   \<and> chat_with_ai quiet_env \<lparr>message = ''hello''\<rparr> empty_world
     = (Inr \<lparr>response = ''re: hello''\<rparr>, empty_world)
   \<and> fst (chat_with_ai (llm_down_env\<lparr>inserted_id := None\<rparr>) \<lparr>message = ''hello''\<rparr> empty_world)
     = fst (chat_with_ai llm_down_env \<lparr>message = ''hello''\<rparr> empty_world)"
  using chat_with_ai_relays [of llm_down_env "\<lparr>message = ''hello''\<rparr>" "Exception ''timeout''"
      empty_world "''x''" "llm_down_env\<lparr>inserted_id := None\<rparr>"]
    chat_with_ai_relays [of quiet_env "\<lparr>message = ''hello''\<rparr>" "Exception ''x''"
      empty_world "''re: hello''" quiet_env]
  by (simp add: llm_down_env_def quiet_env_def)

text \<open>
  Claim C6. Every \<open>Ask(message)\<close> builds its conversation context anew, with the
  same system prompt and the same session identifier, and hands the client the
  current message only. The reply is the client's answer to that context and
  message; it does not depend on the state the process is in, so it does not
  depend on any call handled before, and the call leaves the collection as it
  was.
\<close>

theorem chat_with_ai_stateless:
  "session_id (get_llm_chat e) = ''quantumspace-chat''
   \<and> system_message (get_llm_chat e) = llm_system_message
   \<and> fst (chat_with_ai e chat_message w) =
       (case llm e 0
               \<lparr>api_key = emergent_llm_key e, session_id = ''quantumspace-chat'',
                system_message = llm_system_message, model_provider = ''openai'',
                model_name = ''gpt-4o-mini''\<rparr>
               \<lparr>text_of = message chat_message\<rparr> of
          Inr reply \<Rightarrow> Inr \<lparr>response = reply\<rparr>
        | Inl ex \<Rightarrow> Inl (HTTPException 500 (''Error processing chat message: '' @ str_exc ex)))
   \<and> db_research (snd (chat_with_ai e chat_message w)) = db_research w
   \<and> fst (app e (PostChat chat_message) (snd (serve earlier w)))
       = fst (app e (PostChat chat_message) (snd (serve earlier' w')))"
  by (simp add: chat_with_ai_def get_llm_chat_def answer_def Let_def print_def split: sum.splits)

subsection \<open>Listing\<close>

lemma str_exc_KeyError_examples:
  "str_exc (KeyError ''findings'') = [CHR 0x27] @ ''findings'' @ [CHR 0x27]"
  "str_exc (KeyError (''it'' @ [CHR 0x27] @ ''s'')) =
     [CHR 0x22] @ ''it'' @ [CHR 0x27] @ ''s'' @ [CHR 0x22]"
  "str_exc (KeyError [CHR ''a'', CHR 0x0A, CHR 0x01, CHR 0x5C]) =
     [CHR 0x27, CHR ''a'', CHR 0x5C, CHR ''n'', CHR 0x5C, CHR ''x'', CHR ''0'', CHR ''1'',
      CHR 0x5C, CHR 0x5C, CHR 0x27]"
  by code_simp+

lemma getitem_Inr: "getitem d k = Inr v \<longleftrightarrow> map_of d k = Some v"
  by (simp add: getitem_def split: option.splits)

lemma getitem_Inl: "getitem d k = Inl ex \<longleftrightarrow> map_of d k = None \<and> ex = KeyError k"
  by (auto simp: getitem_def split: option.splits)

lemma research_response_Inl:
  "research_response d = Inl ex \<Longrightarrow> \<exists>k\<in>set response_fields. map_of d k = None \<and> ex = KeyError k"
  by (auto simp: research_response_def response_fields_def getitem_Inl split: sum.splits)

lemma research_response_Inr:
  "research_response d = Inr r \<Longrightarrow> \<forall>k\<in>set response_fields. map_of d k \<noteq> None"
  by (auto simp: research_response_def response_fields_def getitem_Inr split: sum.splits)

lemma research_response_cases:
  "(\<exists>r. research_response d = Inr r) \<longleftrightarrow> (\<forall>k\<in>set response_fields. map_of d k \<noteq> None)"
proof
  assume "\<exists>r. research_response d = Inr r"
  then show "\<forall>k\<in>set response_fields. map_of d k \<noteq> None"
    using research_response_Inr by blast
next
  assume a: "\<forall>k\<in>set response_fields. map_of d k \<noteq> None"
  show "\<exists>r. research_response d = Inr r"
  proof (cases "research_response d")
    case (Inl ex)
    then show ?thesis using research_response_Inl a by blast
  next
    case (Inr r)
    then show ?thesis by blast
  qed
qed

lemma append_items_Inr_all:
  "append_items ds acc = Inr xs \<Longrightarrow> \<forall>d\<in>set ds. \<exists>r. research_response d = Inr r"
proof (induction ds arbitrary: acc)
  case Nil
  then show ?case by simp
next
  case (Cons d ds)
  then obtain r where r: "research_response d = Inr r"
    by (cases "research_response d") auto
  with Cons.prems have "append_items ds (acc @ [r]) = Inr xs" by simp
  then have "\<forall>d\<in>set ds. \<exists>r. research_response d = Inr r" by (rule Cons.IH)
  with r show ?case by simp
qed

lemma append_items_Inr_eq:
  "append_items ds acc = Inr xs \<Longrightarrow> xs = acc @ map (\<lambda>d. projr (research_response d)) ds"
proof (induction ds arbitrary: acc)
  case Nil
  then show ?case by simp
next
  case (Cons d ds)
  then obtain r where r: "research_response d = Inr r"
    by (cases "research_response d") auto
  with Cons.prems have "append_items ds (acc @ [r]) = Inr xs" by simp
  then have "xs = (acc @ [r]) @ map (\<lambda>d. projr (research_response d)) ds" by (rule Cons.IH)
  with r show ?case by simp
qed

lemma append_items_ok:
  "\<forall>d\<in>set ds. \<exists>r. research_response d = Inr r \<Longrightarrow>
     append_items ds acc = Inr (acc @ map (\<lambda>d. projr (research_response d)) ds)"
  by (induction ds arbitrary: acc) (auto split: sum.splits)

lemma append_items_bad:
  "d \<in> set ds \<Longrightarrow> research_response d = Inl ex \<Longrightarrow> \<exists>ex'. append_items ds acc = Inl ex'"
proof (cases "append_items ds acc")
  case (Inl ex')
  then show ?thesis by blast
next
  case (Inr xs)
  assume "d \<in> set ds" "research_response d = Inl ex"
  with append_items_Inr_all [OF Inr] show ?thesis by auto
qed

text \<open>
  Claim C9. \<open>List()\<close> succeeds only if every stored document has all six fields
  id, title, category, description, findings and created_at. If some stored
  document lacks one of them, the whole call fails with status 500 (no subset
  is returned), and the collection stays as it was.
\<close>

theorem list_needs_all_fields:
  "((\<exists>d\<in>set (db_research w). \<exists>k\<in>set response_fields. map_of d k = None) \<longrightarrow>
      (\<exists>detail. fst (get_research_data e w) = Inl (HTTPException 500 detail))
      \<and> db_research (snd (get_research_data e w)) = db_research w)
   \<and> ((\<exists>research_items. fst (get_research_data e w) = Inr research_items) \<longrightarrow>
      (\<forall>d\<in>set (db_research w). \<forall>k\<in>set response_fields. map_of d k \<noteq> None))"
proof (intro conjI impI)
  assume "\<exists>research_items. fst (get_research_data e w) = Inr research_items"
  then obtain xs where "get_research_data_try e w = Inr xs"
    by (auto simp: get_research_data_def split: sum.splits)
  then have "append_items (db_research w) [] = Inr xs"
    by (auto simp: get_research_data_try_def db_call_def split: option.splits sum.splits)
  then show "\<forall>d\<in>set (db_research w). \<forall>k\<in>set response_fields. map_of d k \<noteq> None"
    using append_items_Inr_all research_response_Inr by blast
next
  assume bad: "\<exists>d\<in>set (db_research w). \<exists>k\<in>set response_fields. map_of d k = None"
  have "\<exists>ex. get_research_data_try e w = Inl ex"
  proof (cases "db_fault e 0")
    case None
    from bad obtain d where d: "d \<in> set (db_research w)" "\<not> (\<exists>r. research_response d = Inr r)"
      using research_response_cases by blast
    then obtain ex where "research_response d = Inl ex"
      by (cases "research_response d") auto
    with d obtain ex' where "append_items (db_research w) [] = Inl ex'"
      using append_items_bad by blast
    with None show ?thesis
      by (simp add: get_research_data_try_def db_call_def)
  next
    case (Some a)
    then show ?thesis
      by (cases a) (simp add: get_research_data_try_def db_call_def)
  qed
  then show "\<exists>detail. fst (get_research_data e w) = Inl (HTTPException 500 detail)"
    by (auto simp: get_research_data_def)
next
  show "db_research (snd (get_research_data e w)) = db_research w"
    by (simp add: get_research_data_def print_def split: sum.splits)
qed

theorem list_needs_all_fields_witness:
  "(\<exists>d\<in>set (db_research broken_world). \<exists>k\<in>set response_fields. map_of d k = None)
   \<and> (\<exists>detail. fst (get_research_data quiet_env broken_world) = Inl (HTTPException 500 detail))
   \<and> (\<exists>research_items. fst (get_research_data quiet_env complete_world) = Inr research_items)
   \<and> list_all (\<lambda>d. list_all (\<lambda>k. map_of d k \<noteq> None) response_fields)
        (db_research complete_world)"
proof -
  have bad: "\<exists>d\<in>set (db_research broken_world). \<exists>k\<in>set response_fields. map_of d k = None"
    by (simp add: broken_world_def response_fields_def complete_doc_def)
  have good: "\<exists>research_items. fst (get_research_data quiet_env complete_world) = Inr research_items"
    by (simp add: get_research_data_def get_research_data_try_def db_call_def quiet_env_def
        complete_world_def complete_doc_def research_response_def getitem_def)
  from bad good
    list_needs_all_fields [of broken_world quiet_env]
    list_needs_all_fields [of complete_world quiet_env]
  show ?thesis unfolding list_all_iff by blast
qed

subsection \<open>Deleting\<close>

lemma matches_id: "matches [(''id'', i)] d \<longleftrightarrow> map_of d ''id'' = Some i"
  by (simp add: matches_def)

lemma delete_one_keeps_others:
  "filter (\<lambda>d. \<not> matches flt d) (snd (delete_one flt c)) = filter (\<lambda>d. \<not> matches flt d) c"
  by (induction c) (auto split: prod.splits)

lemma delete_one_count:
  "fst (delete_one flt c) = (if count_documents flt c = 0 then 0 else 1)"
  by (induction c) (auto simp: count_documents_def split: prod.splits)

lemma delete_one_length:
  "length (snd (delete_one flt c)) + fst (delete_one flt c) = length c"
  by (induction c) (auto split: prod.splits)

lemma delete_one_matching:
  "count_documents flt (snd (delete_one flt c)) = count_documents flt c - fst (delete_one flt c)"
  by (induction c) (auto simp: count_documents_def split: prod.splits)

lemma delete_one_none:
  "count_documents flt c = 0 \<Longrightarrow> snd (delete_one flt c) = c"
  by (induction c) (auto simp: count_documents_def split: prod.splits if_splits)

lemma delete_one_first:
  "count_documents flt c \<noteq> 0 \<Longrightarrow>
     \<exists>pre d post. c = pre @ d # post \<and> matches flt d \<and> (\<forall>x\<in>set pre. \<not> matches flt x)
       \<and> snd (delete_one flt c) = pre @ post"
proof (induction c)
  case Nil
  then show ?case by (simp add: count_documents_def)
next
  case (Cons a c)
  show ?case
  proof (cases "matches flt a")
    case True
    then have "a # c = [] @ a # c \<and> matches flt a \<and> (\<forall>x\<in>set []. \<not> matches flt x)
       \<and> snd (delete_one flt (a # c)) = [] @ c" by simp
    then show ?thesis by blast
  next
    case False
    with Cons.prems have "count_documents flt c \<noteq> 0" by (simp add: count_documents_def)
    from Cons.IH [OF this] obtain pre d post where
      h: "c = pre @ d # post" "matches flt d" "\<forall>x\<in>set pre. \<not> matches flt x"
         "snd (delete_one flt c) = pre @ post" by blast
    with False have "a # c = (a # pre) @ d # post \<and> matches flt d
       \<and> (\<forall>x\<in>set (a # pre). \<not> matches flt x)
       \<and> snd (delete_one flt (a # c)) = (a # pre) @ post"
      by (auto split: prod.splits)
    then show ?thesis by blast
  qed
qed

lemma delete_research_data_store:
  "db_research (snd (delete_research_data e i w)) =
     (case db_fault e 0 of None \<Rightarrow> snd (delete_one [(''id'', i)] (db_research w))
      | Some f \<Rightarrow> db_research w)"
  by (auto simp: delete_research_data_def delete_research_data_try_def db_call_def print_def
      split: option.splits prod.splits sum.splits py_exception.splits)

text \<open>
  Claim C10. \<open>Delete(id)\<close> removes at most one record per call, also when
  several stored records share the id (the store does not enforce that ids are
  unique), and every record whose id differs from the given one stays as it
  was, in its place.
\<close>

theorem delete_removes_at_most_one:
  "filter (\<lambda>d. map_of d ''id'' \<noteq> Some research_id)
       (db_research (snd (delete_research_data e research_id w)))
     = filter (\<lambda>d. map_of d ''id'' \<noteq> Some research_id) (db_research w)
   \<and> length (db_research (snd (delete_research_data e research_id w))) \<le> length (db_research w)
   \<and> length (db_research w) \<le> length (db_research (snd (delete_research_data e research_id w))) + 1
   \<and> (db_fault e 0 = None \<longrightarrow>
        count_documents [(''id'', research_id)]
            (db_research (snd (delete_research_data e research_id w)))
          = count_documents [(''id'', research_id)] (db_research w) - 1)"
proof -
  let ?flt = "[(''id'', research_id)]"
  let ?c = "db_research w"
  have k: "filter (\<lambda>d. map_of d ''id'' \<noteq> Some research_id) (snd (delete_one ?flt ?c))
      = filter (\<lambda>d. map_of d ''id'' \<noteq> Some research_id) ?c"
    using delete_one_keeps_others [of ?flt ?c] by (simp add: matches_id)
  have f: "fst (delete_one ?flt ?c) \<le> 1"
    by (simp add: delete_one_count)
  have l: "length (snd (delete_one ?flt ?c)) + fst (delete_one ?flt ?c) = length ?c"
    by (rule delete_one_length)
  have m: "count_documents ?flt (snd (delete_one ?flt ?c)) = count_documents ?flt ?c - 1"
    by (simp add: delete_one_matching delete_one_count)
  show ?thesis
  proof (cases "db_fault e 0")
    case None
    with k f l m show ?thesis by (simp add: delete_research_data_store)
  next
    case (Some a)
    then show ?thesis by (simp add: delete_research_data_store)
  qed
qed

theorem delete_removes_at_most_one_witness:
  "db_fault quiet_env 0 = None
   \<and> count_documents [(''id'', ''a1'')] (db_research duplicate_world) = 2
   \<and> count_documents [(''id'', ''a1'')]
        (db_research (snd (delete_research_data quiet_env ''a1'' duplicate_world))) = 1"
proof -
  have h: "db_fault quiet_env 0 = None"
    by (simp add: quiet_env_def)
  have c: "count_documents [(''id'', ''a1'')] (db_research duplicate_world) = 2"
    by (simp add: count_documents_def matches_def duplicate_world_def complete_doc_def
        other_doc_def)
  from h c delete_removes_at_most_one [of "''a1''" quiet_env duplicate_world]
  show ?thesis by simp
qed

lemma delete_one_last:
  "count_documents flt c = 0 \<Longrightarrow> matches flt d \<Longrightarrow> delete_one flt (c @ [d]) = (1, c)"
  by (induction c) (auto simp: count_documents_def split: if_splits)

lemma delete_one_zero:
  "count_documents flt c = 0 \<Longrightarrow> delete_one flt c = (0, c)"
  by (induction c) (auto simp: count_documents_def split: if_splits)

lemma delete_research_data_found:
  assumes "db_fault e 0 = None" and "count_documents [(''id'', i)] (db_research w) \<noteq> 0"
  shows "delete_research_data e i w =
           (Inr \<lparr>del_message = ''Research item deleted successfully'', del_id = i\<rparr>,
            w\<lparr>db_research := snd (delete_one [(''id'', i)] (db_research w))\<rparr>)"
  using assms delete_one_count [of "[(''id'', i)]" "db_research w"]
  by (auto simp: delete_research_data_def delete_research_data_try_def db_call_def
      split: prod.splits)

lemma delete_research_data_missing:
  assumes "db_fault e 0 = None" and "count_documents [(''id'', i)] (db_research w) = 0"
  shows "delete_research_data e i w = (Inl (HTTPException 404 ''Research item not found''), w)"
  using assms delete_one_zero [of "[(''id'', i)]" "db_research w"]
  by (simp add: delete_research_data_def delete_research_data_try_def db_call_def)

lemma add_research_data_ok:
  assumes "db_fault e 0 = None" and "inserted_id e \<noteq> None"
  shows "add_research_data e research w =
           (Inr \<lparr>r_id = str_uuid (uuid4 (urandom e 0)), r_title = title research,
                 r_category = category research, r_description = description research,
                 r_findings = findings research, r_created_at = isoformat (clock e 0)\<rparr>,
            w\<lparr>db_research := db_research w @
                 [research_doc_of (str_uuid (uuid4 (urandom e 0))) research
                    (isoformat (clock e 0))]\<rparr>)"
  using assms
  by (auto simp: add_research_data_def add_research_data_try_def db_call_def insert_one_def Let_def)

lemma matches_research_doc_of: "matches [(''id'', i)] (research_doc_of i research ts)"
  by (simp add: matches_def research_doc_of_def)

lemma quiet_id:
  "str_uuid (uuid4 (urandom quiet_env 0)) = ''123e4567-e89b-42d3-a456-426614174000''"
  by code_simp

lemma quiet_ts: "isoformat (clock quiet_env 0) = ''2025-03-09T14:05:07''"
  by code_simp

lemma quiet_through: "db_fault quiet_env 0 = None" "inserted_id quiet_env \<noteq> None"
  by (simp_all add: quiet_env_def)

lemma once_added_world_eq:
  "once_added_world =
     \<lparr>db_research =
        [research_doc_of ''123e4567-e89b-42d3-a456-426614174000'' scenario_item
           ''2025-03-09T14:05:07''],
      stdout = []\<rparr>"
  by (simp add: once_added_world_def add_research_data_ok [OF quiet_through] quiet_id quiet_ts
      empty_world_def)

lemma twice_added_world_eq:
  "twice_added_world =
     \<lparr>db_research =
        [research_doc_of ''123e4567-e89b-42d3-a456-426614174000'' scenario_item
           ''2025-03-09T14:05:07'',
         research_doc_of ''123e4567-e89b-42d3-a456-426614174000'' scenario_item
           ''2025-03-09T14:05:07''],
      stdout = []\<rparr>"
  by (simp add: twice_added_world_def add_research_data_ok [OF quiet_through] quiet_id quiet_ts
      once_added_world_eq)

lemma count_documents_snoc:
  "count_documents flt (c @ [d]) = count_documents flt c + (if matches flt d then 1 else 0)"
  by (simp add: count_documents_def)

text \<open>
  Claim C2, as stated, fails in its second part: an id returned by \<open>Add\<close> can
  be the id of a record stored before (the id comes from a random draw and the
  store accepts duplicates), and then \<open>Delete\<close> of that id succeeds more than
  once. Here the same request is added twice with the same random draw, and two
  deletes of the returned id both succeed.
\<close>

theorem delete_twice_counterexample:
  "fst (add_research_data quiet_env scenario_item once_added_world)
     = Inr \<lparr>r_id = ''123e4567-e89b-42d3-a456-426614174000'', r_title = ''T'',
             r_category = ''ai'', r_description = ''D'', r_findings = ''F'',
             r_created_at = ''2025-03-09T14:05:07''\<rparr>
   \<and> snd (add_research_data quiet_env scenario_item once_added_world) = twice_added_world
   \<and> fst (delete_research_data quiet_env ''123e4567-e89b-42d3-a456-426614174000''
          twice_added_world)
     = Inr \<lparr>del_message = ''Research item deleted successfully'',
             del_id = ''123e4567-e89b-42d3-a456-426614174000''\<rparr>
   \<and> fst (delete_research_data quiet_env ''123e4567-e89b-42d3-a456-426614174000''
          (snd (delete_research_data quiet_env ''123e4567-e89b-42d3-a456-426614174000''
             twice_added_world)))
     = Inr \<lparr>del_message = ''Research item deleted successfully'',
             del_id = ''123e4567-e89b-42d3-a456-426614174000''\<rparr>"
proof -
  let ?i = "''123e4567-e89b-42d3-a456-426614174000''"
  let ?d = "research_doc_of ?i scenario_item ''2025-03-09T14:05:07''"
  have a: "add_research_data quiet_env scenario_item once_added_world
     = (Inr \<lparr>r_id = ?i, r_title = ''T'', r_category = ''ai'', r_description = ''D'',
             r_findings = ''F'', r_created_at = ''2025-03-09T14:05:07''\<rparr>, twice_added_world)"
    by (simp add: add_research_data_ok [OF quiet_through] quiet_id quiet_ts
        twice_added_world_eq once_added_world_eq scenario_item_def)
  have m: "matches [(''id'', ?i)] ?d" by (rule matches_research_doc_of)
  have c2: "count_documents [(''id'', ?i)] (db_research twice_added_world) \<noteq> 0"
    using m by (simp add: twice_added_world_eq count_documents_def)
  have d1: "delete_research_data quiet_env ?i twice_added_world =
      (Inr \<lparr>del_message = ''Research item deleted successfully'', del_id = ?i\<rparr>,
       once_added_world)"
  proof -
    have "twice_added_world\<lparr>db_research :=
        snd (delete_one [(''id'', ?i)] (db_research twice_added_world))\<rparr> = once_added_world"
      using m by (simp add: twice_added_world_eq once_added_world_eq)
    with delete_research_data_found [OF quiet_through(1) c2] show ?thesis by simp
  qed
  have c1: "count_documents [(''id'', ?i)] (db_research once_added_world) \<noteq> 0"
    using m by (simp add: once_added_world_eq count_documents_def)
  have d2: "fst (delete_research_data quiet_env ?i once_added_world) =
      Inr \<lparr>del_message = ''Research item deleted successfully'', del_id = ?i\<rparr>"
    by (simp add: delete_research_data_found [OF quiet_through(1) c1])
  from a d1 d2 show ?thesis by simp
qed

text \<open>
  Claim C2, amended. When the database call goes through, \<open>Delete(id)\<close> fails,
  with the not-found error of status 404, if and only if no stored record has
  that id; otherwise it removes the first record with that id and returns a
  confirmation holding the id. \<open>Delete(id)\<close> for an id returned by a prior
  \<open>Add\<close> succeeds; a second \<open>Delete\<close> with the same id returns not-found if
  and only if no record stored before the \<open>Add\<close> had that id, and succeeds
  again otherwise.
\<close>

theorem delete_not_found_iff:
  "(db_fault e 0 = None \<longrightarrow>
      (fst (delete_research_data e research_id w)
           = Inl (HTTPException 404 ''Research item not found'')
         \<longleftrightarrow> count_documents [(''id'', research_id)] (db_research w) = 0)
      \<and> ((\<exists>ex. fst (delete_research_data e research_id w) = Inl ex)
         \<longleftrightarrow> count_documents [(''id'', research_id)] (db_research w) = 0)
      \<and> (count_documents [(''id'', research_id)] (db_research w) = 0 \<longrightarrow>
           snd (delete_research_data e research_id w) = w)
      \<and> (count_documents [(''id'', research_id)] (db_research w) \<noteq> 0 \<longrightarrow>
           fst (delete_research_data e research_id w)
             = Inr \<lparr>del_message = ''Research item deleted successfully'', del_id = research_id\<rparr>
           \<and> stdout (snd (delete_research_data e research_id w)) = stdout w
           \<and> (\<exists>pre d post. db_research w = pre @ d # post
                 \<and> map_of d ''id'' = Some research_id
                 \<and> (\<forall>x\<in>set pre. map_of x ''id'' \<noteq> Some research_id)
                 \<and> db_research (snd (delete_research_data e research_id w)) = pre @ post)))
   \<and> (db_fault e1 0 = None \<and> inserted_id e1 \<noteq> None
        \<and> db_fault e2 0 = None \<and> db_fault e3 0 = None \<longrightarrow>
      (\<exists>r w1 w2 r3 w3. add_research_data e1 research w = (Inr r, w1)
         \<and> delete_research_data e2 (r_id r) w1
             = (Inr \<lparr>del_message = ''Research item deleted successfully'', del_id = r_id r\<rparr>, w2)
         \<and> count_documents [(''id'', r_id r)] (db_research w2)
             = count_documents [(''id'', r_id r)] (db_research w)
         \<and> delete_research_data e3 (r_id r) w2 = (r3, w3)
         \<and> (r3 = Inl (HTTPException 404 ''Research item not found'')
              \<longleftrightarrow> count_documents [(''id'', r_id r)] (db_research w) = 0)
         \<and> (r3 = Inr \<lparr>del_message = ''Research item deleted successfully'', del_id = r_id r\<rparr>
              \<longleftrightarrow> count_documents [(''id'', r_id r)] (db_research w) \<noteq> 0)))"
proof (intro conjI impI)
  let ?flt = "[(''id'', research_id)]"
  assume nf: "db_fault e 0 = None"
  show "(fst (delete_research_data e research_id w)
           = Inl (HTTPException 404 ''Research item not found''))
         \<longleftrightarrow> count_documents ?flt (db_research w) = 0"
    using delete_research_data_found [OF nf, of research_id w]
      delete_research_data_missing [OF nf, of research_id w]
    by (cases "count_documents ?flt (db_research w) = 0") auto
  show "(\<exists>ex. fst (delete_research_data e research_id w) = Inl ex)
         \<longleftrightarrow> count_documents ?flt (db_research w) = 0"
    using delete_research_data_found [OF nf, of research_id w]
      delete_research_data_missing [OF nf, of research_id w]
    by (cases "count_documents ?flt (db_research w) = 0") auto
  {
    assume z: "count_documents ?flt (db_research w) = 0"
    show "snd (delete_research_data e research_id w) = w"
      by (simp add: delete_research_data_missing [OF nf z])
  }
  {
    assume nz: "count_documents ?flt (db_research w) \<noteq> 0"
    note found = delete_research_data_found [OF nf nz]
    show "fst (delete_research_data e research_id w)
        = Inr \<lparr>del_message = ''Research item deleted successfully'', del_id = research_id\<rparr>"
      by (simp add: found)
    show "stdout (snd (delete_research_data e research_id w)) = stdout w"
      by (simp add: found)
    from delete_one_first [OF nz] obtain pre d post where
      h: "db_research w = pre @ d # post" "matches ?flt d" "\<forall>x\<in>set pre. \<not> matches ?flt x"
         "snd (delete_one ?flt (db_research w)) = pre @ post" by blast
    then have "db_research w = pre @ d # post
                 \<and> map_of d ''id'' = Some research_id
                 \<and> (\<forall>x\<in>set pre. map_of x ''id'' \<noteq> Some research_id)
                 \<and> db_research (snd (delete_research_data e research_id w)) = pre @ post"
      by (simp add: found matches_id)
    then show "\<exists>pre d post. db_research w = pre @ d # post
                 \<and> map_of d ''id'' = Some research_id
                 \<and> (\<forall>x\<in>set pre. map_of x ''id'' \<noteq> Some research_id)
                 \<and> db_research (snd (delete_research_data e research_id w)) = pre @ post"
      by blast
  }
next
  let ?i = "str_uuid (uuid4 (urandom e1 0))"
  let ?flt = "[(''id'', ?i)]"
  let ?doc = "research_doc_of ?i research (isoformat (clock e1 0))"
  let ?r = "\<lparr>r_id = ?i, r_title = title research,
                 r_category = category research, r_description = description research,
                 r_findings = findings research, r_created_at = isoformat (clock e1 0)\<rparr>"
  let ?w1 = "w\<lparr>db_research := db_research w @ [?doc]\<rparr>"
  let ?w2 = "?w1\<lparr>db_research := snd (delete_one ?flt (db_research ?w1))\<rparr>"
  let ?ok = "Inr \<lparr>del_message = ''Research item deleted successfully'', del_id = ?i\<rparr>
      :: py_exception + deleted"
  assume a: "db_fault e1 0 = None \<and> inserted_id e1 \<noteq> None
        \<and> db_fault e2 0 = None \<and> db_fault e3 0 = None"
  then have add: "add_research_data e1 research w = (Inr ?r, ?w1)"
    by (simp add: add_research_data_ok)
  from a have e2: "db_fault e2 0 = None" and e3: "db_fault e3 0 = None" by simp_all
  have c1: "count_documents ?flt (db_research ?w1) = count_documents ?flt (db_research w) + 1"
    by (simp add: count_documents_snoc matches_research_doc_of)
  then have nz: "count_documents ?flt (db_research ?w1) \<noteq> 0" by simp
  have del1: "delete_research_data e2 ?i ?w1 = (?ok, ?w2)"
    by (rule delete_research_data_found [OF e2 nz])
  have c2: "count_documents ?flt (db_research ?w2) = count_documents ?flt (db_research w)"
    using c1 by (simp add: delete_one_matching delete_one_count)
  obtain r3 w3 where del2: "delete_research_data e3 ?i ?w2 = (r3, w3)"
    by (cases "delete_research_data e3 ?i ?w2") blast
  have r3a: "r3 = Inl (HTTPException 404 ''Research item not found'')
      \<longleftrightarrow> count_documents ?flt (db_research w) = 0"
    using delete_research_data_found [OF e3, of ?i ?w2]
      delete_research_data_missing [OF e3, of ?i ?w2] del2 c2
    by (cases "count_documents ?flt (db_research w) = 0") auto
  have r3b: "r3 = ?ok \<longleftrightarrow> count_documents ?flt (db_research w) \<noteq> 0"
    using delete_research_data_found [OF e3, of ?i ?w2]
      delete_research_data_missing [OF e3, of ?i ?w2] del2 c2
    by (cases "count_documents ?flt (db_research w) = 0") auto
  have final: "add_research_data e1 research w = (Inr ?r, ?w1)
         \<and> delete_research_data e2 (r_id ?r) ?w1
             = (Inr \<lparr>del_message = ''Research item deleted successfully'', del_id = r_id ?r\<rparr>, ?w2)
         \<and> count_documents [(''id'', r_id ?r)] (db_research ?w2)
             = count_documents [(''id'', r_id ?r)] (db_research w)
         \<and> delete_research_data e3 (r_id ?r) ?w2 = (r3, w3)
         \<and> (r3 = Inl (HTTPException 404 ''Research item not found'')
              \<longleftrightarrow> count_documents [(''id'', r_id ?r)] (db_research w) = 0)
         \<and> (r3 = Inr \<lparr>del_message = ''Research item deleted successfully'', del_id = r_id ?r\<rparr>
              \<longleftrightarrow> count_documents [(''id'', r_id ?r)] (db_research w) \<noteq> 0)"
    using add del1 c2 del2 r3a r3b by simp
  show "\<exists>r w1 w2 r3 w3. add_research_data e1 research w = (Inr r, w1)
         \<and> delete_research_data e2 (r_id r) w1
             = (Inr \<lparr>del_message = ''Research item deleted successfully'', del_id = r_id r\<rparr>, w2)
         \<and> count_documents [(''id'', r_id r)] (db_research w2)
             = count_documents [(''id'', r_id r)] (db_research w)
         \<and> delete_research_data e3 (r_id r) w2 = (r3, w3)
         \<and> (r3 = Inl (HTTPException 404 ''Research item not found'')
              \<longleftrightarrow> count_documents [(''id'', r_id r)] (db_research w) = 0)
         \<and> (r3 = Inr \<lparr>del_message = ''Research item deleted successfully'', del_id = r_id r\<rparr>
              \<longleftrightarrow> count_documents [(''id'', r_id r)] (db_research w) \<noteq> 0)"
    by (rule exI [of _ "?r"], rule exI [of _ "?w1"], rule exI [of _ "?w2"],
        rule exI [of _ r3], rule exI [of _ w3]) (rule final)
qed

theorem delete_not_found_iff_witness:
  "db_fault quiet_env 0 = None \<and> inserted_id quiet_env \<noteq> None
   \<and> count_documents [(''id'', ''a1'')] (db_research complete_world) \<noteq> 0
   \<and> fst (delete_research_data quiet_env ''a1'' complete_world)
       = Inr \<lparr>del_message = ''Research item deleted successfully'', del_id = ''a1''\<rparr>
   \<and> count_documents [(''id'', ''zz'')] (db_research complete_world) = 0
   \<and> fst (delete_research_data quiet_env ''zz'' complete_world)
       = Inl (HTTPException 404 ''Research item not found'')
   \<and> (\<exists>r w1 w2 w3.
         add_research_data quiet_env scenario_item empty_world = (Inr r, w1)
         \<and> delete_research_data quiet_env (r_id r) w1
             = (Inr \<lparr>del_message = ''Research item deleted successfully'', del_id = r_id r\<rparr>, w2)
         \<and> delete_research_data quiet_env (r_id r) w2
             = (Inl (HTTPException 404 ''Research item not found''), w3))"
proof -
  note h = quiet_through
  have h3: "count_documents [(''id'', ''a1'')] (db_research complete_world) \<noteq> 0"
    by (simp add: count_documents_def matches_def complete_world_def complete_doc_def)
  have h4: "count_documents [(''id'', ''zz'')] (db_research complete_world) = 0"
    by (simp add: count_documents_def matches_def complete_world_def complete_doc_def)
  note inst = delete_not_found_iff [where e = quiet_env and w = complete_world
      and ?e1.0 = quiet_env and ?e2.0 = quiet_env and ?e3.0 = quiet_env
      and research = scenario_item]
  have a: "fst (delete_research_data quiet_env ''a1'' complete_world)
       = Inr \<lparr>del_message = ''Research item deleted successfully'', del_id = ''a1''\<rparr>"
    using h(1) h3 inst [where research_id = "''a1''"] by blast
  have b: "fst (delete_research_data quiet_env ''zz'' complete_world)
       = Inl (HTTPException 404 ''Research item not found'')"
    using h(1) h4 inst [where research_id = "''zz''"] by blast
  from h have "db_fault quiet_env 0 = None \<and> inserted_id quiet_env \<noteq> None
      \<and> db_fault quiet_env 0 = None \<and> db_fault quiet_env 0 = None"
    by simp
  from delete_not_found_iff [where w = empty_world
        and ?e1.0 = quiet_env and ?e2.0 = quiet_env and ?e3.0 = quiet_env
        and research = scenario_item, THEN conjunct2, THEN mp, OF this]
  obtain r w1 w2 r3 w3 where
    s: "add_research_data quiet_env scenario_item empty_world = (Inr r, w1)"
      "delete_research_data quiet_env (r_id r) w1
         = (Inr \<lparr>del_message = ''Research item deleted successfully'', del_id = r_id r\<rparr>, w2)"
      "delete_research_data quiet_env (r_id r) w2 = (r3, w3)"
      "r3 = Inl (HTTPException 404 ''Research item not found'')
         \<longleftrightarrow> count_documents [(''id'', r_id r)] (db_research empty_world) = 0"
    by (elim exE conjE) (rule that, assumption+)
  have "count_documents [(''id'', r_id r)] (db_research empty_world) = 0"
    by (simp add: count_documents_def empty_world_def)
  with s have c: "\<exists>r w1 w2 w3.
         add_research_data quiet_env scenario_item empty_world = (Inr r, w1)
         \<and> delete_research_data quiet_env (r_id r) w1
             = (Inr \<lparr>del_message = ''Research item deleted successfully'', del_id = r_id r\<rparr>, w2)
         \<and> delete_research_data quiet_env (r_id r) w2
             = (Inl (HTTPException 404 ''Research item not found''), w3)"
    by auto
  from h h3 h4 a b c show ?thesis by blast
qed

subsection \<open>Statistics\<close>

lemma count_documents_all: "count_documents [] c = length c"
  by (simp add: count_documents_def matches_def)

lemma count_documents_category:
  "count_documents [(''category'', x)] c
     = length (filter (\<lambda>d. map_of d ''category'' = Some x) c)"
proof -
  have "matches [(''category'', x)] = (\<lambda>d. map_of d ''category'' = Some x)"
    by (rule ext) (simp add: matches_def)
  then show ?thesis by (simp add: count_documents_def)
qed

lemma get_research_data_length:
  assumes "fst (get_research_data e w) = Inr research_items"
  shows "length research_items = length (db_research w)"
proof -
  from assms have "get_research_data_try e w = Inr research_items"
    by (auto simp: get_research_data_def split: sum.splits)
  then have "append_items (db_research w) [] = Inr research_items"
    by (auto simp: get_research_data_try_def db_call_def split: option.splits sum.splits)
  from append_items_Inr_eq [OF this] show ?thesis by simp
qed

lemma get_research_stats_total:
  assumes "fst (get_research_stats e w) = Inr stats"
  shows "total_research stats = length (db_research w)"
proof -
  from assms have "get_research_stats_try e w = Inr stats"
    by (auto simp: get_research_stats_def split: sum.splits)
  then show ?thesis
    by (auto simp: get_research_stats_try_def db_call_def count_documents_all
        split: option.splits sum.splits)
qed

text \<open>
  Claim C4. In any state of the store, handled without interleaved writes,
  \<open>Stats()\<close> returns the number of stored records, the number of records of
  each of the four categories space, quantum, ai and database (and of no
  other), and the current time; the total equals the length of what \<open>List()\<close>
  returns in the same state.
\<close>

theorem stats_counts:
  "(db_fault e 0 = None \<and> db_fault e 1 = None \<and> db_fault e 2 = None
      \<and> db_fault e 3 = None \<and> db_fault e 4 = None \<longrightarrow>
      get_research_stats e w =
        (Inr \<lparr>total_research = length (db_research w),
              categories =
                \<lparr>space = length (filter (\<lambda>d. map_of d ''category'' = Some ''space'') (db_research w)),
                 quantum = length (filter (\<lambda>d. map_of d ''category'' = Some ''quantum'') (db_research w)),
                 ai = length (filter (\<lambda>d. map_of d ''category'' = Some ''ai'') (db_research w)),
                 database = length (filter (\<lambda>d. map_of d ''category'' = Some ''database'') (db_research w))\<rparr>,
              last_updated = isoformat (clock e 0)\<rparr>, w))
   \<and> (fst (get_research_stats e w) = Inr stats
        \<and> fst (get_research_data e' w) = Inr research_items \<longrightarrow>
      total_research stats = length research_items)"
proof (intro conjI impI)
  assume "db_fault e 0 = None \<and> db_fault e 1 = None \<and> db_fault e 2 = None
      \<and> db_fault e 3 = None \<and> db_fault e 4 = None"
  then show "get_research_stats e w =
        (Inr \<lparr>total_research = length (db_research w),
              categories =
                \<lparr>space = length (filter (\<lambda>d. map_of d ''category'' = Some ''space'') (db_research w)),
                 quantum = length (filter (\<lambda>d. map_of d ''category'' = Some ''quantum'') (db_research w)),
                 ai = length (filter (\<lambda>d. map_of d ''category'' = Some ''ai'') (db_research w)),
                 database = length (filter (\<lambda>d. map_of d ''category'' = Some ''database'') (db_research w))\<rparr>,
              last_updated = isoformat (clock e 0)\<rparr>, w)"
    by (simp add: get_research_stats_def get_research_stats_try_def db_call_def
        count_documents_all count_documents_category)
next
  assume "fst (get_research_stats e w) = Inr stats
        \<and> fst (get_research_data e' w) = Inr research_items"
  then have "total_research stats = length (db_research w)"
    and "length research_items = length (db_research w)"
    using get_research_stats_total get_research_data_length by blast+
  then show "total_research stats = length research_items" by simp
qed

theorem stats_counts_witness:
  "db_fault quiet_env 0 = None \<and> db_fault quiet_env 1 = None \<and> db_fault quiet_env 2 = None
   \<and> db_fault quiet_env 3 = None \<and> db_fault quiet_env 4 = None
   \<and> get_research_stats quiet_env duplicate_world =
        (Inr \<lparr>total_research = 3,
              categories = \<lparr>space = 1, quantum = 0, ai = 2, database = 0\<rparr>,
              last_updated = isoformat (clock quiet_env 0)\<rparr>, duplicate_world)
   \<and> (\<exists>research_items.
         fst (get_research_data quiet_env duplicate_world) = Inr research_items
         \<and> length research_items = 3)"
proof -
  have h: "db_fault quiet_env 0 = None \<and> db_fault quiet_env 1 = None
      \<and> db_fault quiet_env 2 = None \<and> db_fault quiet_env 3 = None
      \<and> db_fault quiet_env 4 = None"
    by (simp add: quiet_env_def)
  note inst = stats_counts [where e = quiet_env and e' = quiet_env and w = duplicate_world]
  from h inst have s: "get_research_stats quiet_env duplicate_world =
        (Inr \<lparr>total_research = 3,
              categories = \<lparr>space = 1, quantum = 0, ai = 2, database = 0\<rparr>,
              last_updated = isoformat (clock quiet_env 0)\<rparr>, duplicate_world)"
    by (simp add: duplicate_world_def complete_doc_def other_doc_def)
  obtain research_items where
    l: "fst (get_research_data quiet_env duplicate_world) = Inr research_items"
    by (simp add: get_research_data_def get_research_data_try_def db_call_def quiet_env_def
        duplicate_world_def complete_doc_def other_doc_def research_response_def getitem_def)
  from s l inst [where stats = "\<lparr>total_research = 3,
              categories = \<lparr>space = 1, quantum = 0, ai = 2, database = 0\<rparr>,
              last_updated = isoformat (clock quiet_env 0)\<rparr>" and research_items = research_items]
  have "length research_items = 3" by simp
  with h s l show ?thesis by blast
qed

subsection \<open>Startup seeding\<close>

lemma sample_data_length: "length (sample_data e) = 4"
  by (simp add: sample_data_def)

lemma sample_data_categories:
  "map (\<lambda>d. map_of d ''category'') (sample_data e)
     = [Some ''space'', Some ''quantum'', Some ''ai'', Some ''database'']"
  by (simp add: sample_data_def)

lemma sample_data_titles:
  "map (\<lambda>d. map_of d ''title'') (sample_data e)
     = [Some ''Mars Rover Autonomous Navigation System'',
        Some ''Quantum Entanglement Communication Protocol'',
        Some ''AI-Powered Astronomical Data Analysis'',
        Some ''Distributed Space Mission Database Architecture'']"
  by (simp add: sample_data_def)

lemma sample_data_complete: "\<forall>d\<in>set (sample_data e). \<exists>r. research_response d = Inr r"
  by (simp add: sample_data_def research_response_def getitem_def)

lemma startup_event_store:
  "db_research (snd (startup_event e w)) =
     (case db_fault e 0 of
        Some f \<Rightarrow> db_research w
      | None \<Rightarrow>
          if db_research w = []
          then (case db_fault e 1 of
                  None \<Rightarrow> sample_data e
                | Some (m, n) \<Rightarrow> take n (sample_data e))
          else db_research w)"
  by (auto simp: startup_event_def startup_event_try_def db_call_def count_documents_all
      insert_many_def print_def split: option.splits prod.splits sum.splits)

lemma startup_event_returns: "fst (startup_event e w) = Inr ()"
  by (auto simp: startup_event_def split: prod.splits sum.splits)

lemma filter_category_sample:
  "length (filter (\<lambda>d. map_of d ''category'' = Some ''space'') (sample_data e)) = 1"
  "length (filter (\<lambda>d. map_of d ''category'' = Some ''quantum'') (sample_data e)) = 1"
  "length (filter (\<lambda>d. map_of d ''category'' = Some ''ai'') (sample_data e)) = 1"
  "length (filter (\<lambda>d. map_of d ''category'' = Some ''database'') (sample_data e)) = 1"
  by (simp_all add: sample_data_def)

text \<open>
  Claim C3. The startup handler counts the stored records and inserts the four
  predefined records, one for each of the categories space, quantum, ai and
  database, if and only if the count is zero. After the seeding of an empty
  collection \<open>List()\<close> returns four items and \<open>Stats()\<close> reports a total of
  four and one record in each category. If a record exists already, nothing is
  inserted. (The database calls are taken to go through; that the handler runs
  once per process is the framework's contract for startup handlers.)
\<close>

theorem startup_seeds_empty_store:
  "(db_research w \<noteq> [] \<longrightarrow> db_research (snd (startup_event e w)) = db_research w)
   \<and> (db_fault e 0 = None \<and> db_fault e 1 = None \<and> db_research w = [] \<longrightarrow>
        db_research (snd (startup_event e w)) = sample_data e)
   \<and> length (sample_data e) = 4
   \<and> map (\<lambda>d. map_of d ''category'') (sample_data e)
       = [Some ''space'', Some ''quantum'', Some ''ai'', Some ''database'']
   \<and> map (\<lambda>d. map_of d ''title'') (sample_data e)
       = [Some ''Mars Rover Autonomous Navigation System'',
          Some ''Quantum Entanglement Communication Protocol'',
          Some ''AI-Powered Astronomical Data Analysis'',
          Some ''Distributed Space Mission Database Architecture'']
   \<and> (db_fault e 0 = None \<and> db_fault e 1 = None \<and> db_research w = []
        \<and> db_fault e' 0 = None \<and> db_fault e' 1 = None \<and> db_fault e' 2 = None
        \<and> db_fault e' 3 = None \<and> db_fault e' 4 = None \<longrightarrow>
        (\<exists>research_items.
            fst (get_research_data e' (snd (startup_event e w))) = Inr research_items
            \<and> length research_items = 4)
        \<and> fst (get_research_stats e' (snd (startup_event e w)))
            = Inr \<lparr>total_research = 4,
                   categories = \<lparr>space = 1, quantum = 1, ai = 1, database = 1\<rparr>,
                   last_updated = isoformat (clock e' 0)\<rparr>)"
proof (intro conjI impI)
  show "length (sample_data e) = 4" by (rule sample_data_length)
  show "map (\<lambda>d. map_of d ''category'') (sample_data e)
       = [Some ''space'', Some ''quantum'', Some ''ai'', Some ''database'']"
    by (rule sample_data_categories)
  show "map (\<lambda>d. map_of d ''title'') (sample_data e)
       = [Some ''Mars Rover Autonomous Navigation System'',
          Some ''Quantum Entanglement Communication Protocol'',
          Some ''AI-Powered Astronomical Data Analysis'',
          Some ''Distributed Space Mission Database Architecture'']"
    by (rule sample_data_titles)
  {
    assume "db_research w \<noteq> []"
    then show "db_research (snd (startup_event e w)) = db_research w"
      by (simp add: startup_event_store split: option.splits)
  }
  {
    assume "db_fault e 0 = None \<and> db_fault e 1 = None \<and> db_research w = []"
    then show "db_research (snd (startup_event e w)) = sample_data e"
      by (simp add: startup_event_store)
  }
  assume a: "db_fault e 0 = None \<and> db_fault e 1 = None \<and> db_research w = []
        \<and> db_fault e' 0 = None \<and> db_fault e' 1 = None \<and> db_fault e' 2 = None
        \<and> db_fault e' 3 = None \<and> db_fault e' 4 = None"
  then have s: "db_research (snd (startup_event e w)) = sample_data e"
    by (simp add: startup_event_store)
  from a have "get_research_data_try e' (snd (startup_event e w))
      = Inr ([] @ map (\<lambda>d. projr (research_response d)) (sample_data e))"
    by (simp add: get_research_data_try_def db_call_def s
        append_items_ok [OF sample_data_complete])
  then have "fst (get_research_data e' (snd (startup_event e w)))
      = Inr (map (\<lambda>d. projr (research_response d)) (sample_data e))"
    by (simp add: get_research_data_def)
  then show "\<exists>research_items.
            fst (get_research_data e' (snd (startup_event e w))) = Inr research_items
            \<and> length research_items = 4"
    by (simp add: sample_data_length)
  from a show "fst (get_research_stats e' (snd (startup_event e w)))
            = Inr \<lparr>total_research = 4,
                   categories = \<lparr>space = 1, quantum = 1, ai = 1, database = 1\<rparr>,
                   last_updated = isoformat (clock e' 0)\<rparr>"
    by (simp add: get_research_stats_def get_research_stats_try_def db_call_def s
        count_documents_all count_documents_category sample_data_length filter_category_sample)
qed

theorem startup_seeds_empty_store_witness:
  "db_fault quiet_env 0 = None \<and> db_fault quiet_env 1 = None \<and> db_fault quiet_env 2 = None
   \<and> db_fault quiet_env 3 = None \<and> db_fault quiet_env 4 = None
   \<and> db_research empty_world = []
   \<and> db_research (snd (startup_event quiet_env empty_world)) = sample_data quiet_env
   \<and> (\<exists>research_items.
         fst (get_research_data quiet_env (snd (startup_event quiet_env empty_world)))
           = Inr research_items
         \<and> length research_items = 4)
   \<and> fst (get_research_stats quiet_env (snd (startup_event quiet_env empty_world)))
       = Inr \<lparr>total_research = 4,
              categories = \<lparr>space = 1, quantum = 1, ai = 1, database = 1\<rparr>,
              last_updated = isoformat (clock quiet_env 0)\<rparr>
   \<and> db_research complete_world \<noteq> []
   \<and> db_research (snd (startup_event quiet_env complete_world)) = db_research complete_world"
proof -
  have h: "db_fault quiet_env 0 = None \<and> db_fault quiet_env 1 = None
      \<and> db_fault quiet_env 2 = None \<and> db_fault quiet_env 3 = None
      \<and> db_fault quiet_env 4 = None"
    by (simp add: quiet_env_def)
  have e: "db_research empty_world = []" by (simp add: empty_world_def)
  have n: "db_research complete_world \<noteq> []" by (simp add: complete_world_def)
  from h e n
    startup_seeds_empty_store [where e = quiet_env and e' = quiet_env and w = empty_world]
    startup_seeds_empty_store [where e = quiet_env and e' = quiet_env and w = complete_world]
  show ?thesis by blast
qed

text \<open>
  Claim C8, as stated, fails: when the \<open>insert_many\<close> of the seeding step raises
  after part of the batch was written, the handler prints the error and
  returns, and the collection keeps the documents written so far. Here the
  database fails after two of the four documents.
\<close>

theorem startup_partial_seed_counterexample:
  "fst (startup_event_try seed_fault_env empty_world) = Inl (Exception ''connection lost'')
   \<and> fst (startup_event seed_fault_env empty_world) = Inr ()
   \<and> db_research (snd (startup_event seed_fault_env empty_world))
       = take 2 (sample_data seed_fault_env)
   \<and> length (db_research (snd (startup_event seed_fault_env empty_world))) = 2
   \<and> db_research (snd (startup_event seed_fault_env empty_world)) \<noteq> db_research empty_world"
proof -
  have f: "db_fault seed_fault_env 0 = None"
    "db_fault seed_fault_env 1 = Some (''connection lost'', 2)"
    "db_fault seed_fault_env (Suc 0) = Some (''connection lost'', 2)"
    by (simp_all add: seed_fault_env_def quiet_env_def)
  have e: "db_research empty_world = []" by (simp add: empty_world_def)
  have t: "fst (startup_event_try seed_fault_env empty_world) = Inl (Exception ''connection lost'')"
    by (simp add: startup_event_try_def db_call_def f e count_documents_all)
  have s: "db_research (snd (startup_event seed_fault_env empty_world))
       = take 2 (sample_data seed_fault_env)"
    by (simp add: startup_event_store f e)
  have l: "length (take 2 (sample_data seed_fault_env)) = 2"
    by (simp add: sample_data_length)
  from t s l e show ?thesis
    by (auto simp: startup_event_returns)
qed

text \<open>
  Claim C8, amended. The startup handler never raises: every exception of the
  count or of the insert is caught and printed. The collection stays as it was
  when it is not empty and when the count fails. When the insert fails, the
  collection holds the documents of the batch that the database had written
  before it failed; the handler undoes nothing.
\<close>

theorem startup_never_aborts:
  "fst (startup_event e w) = Inr ()
   \<and> (db_research w \<noteq> [] \<longrightarrow> db_research (snd (startup_event e w)) = db_research w)
   \<and> (db_fault e 0 = Some (m, n) \<longrightarrow>
        db_research (snd (startup_event e w)) = db_research w
        \<and> stdout (snd (startup_event e w)) = stdout w @ [''Startup error: '' @ m])
   \<and> (db_fault e 0 = None \<and> db_research w = [] \<and> db_fault e 1 = Some (m, n) \<longrightarrow>
        db_research (snd (startup_event e w)) = take n (sample_data e)
        \<and> stdout (snd (startup_event e w)) = stdout w @ [''Startup error: '' @ m])"
proof (intro conjI impI)
  show "fst (startup_event e w) = Inr ()" by (rule startup_event_returns)
  {
    assume "db_research w \<noteq> []"
    then show "db_research (snd (startup_event e w)) = db_research w"
      by (simp add: startup_event_store split: option.splits)
  }
  {
    assume a: "db_fault e 0 = Some (m, n)"
    then show "db_research (snd (startup_event e w)) = db_research w"
      by (simp add: startup_event_store)
    from a show "stdout (snd (startup_event e w)) = stdout w @ [''Startup error: '' @ m]"
      by (simp add: startup_event_def startup_event_try_def db_call_def print_def)
  }
  assume a: "db_fault e 0 = None \<and> db_research w = [] \<and> db_fault e 1 = Some (m, n)"
  then show "db_research (snd (startup_event e w)) = take n (sample_data e)"
    by (simp add: startup_event_store)
  from a show "stdout (snd (startup_event e w)) = stdout w @ [''Startup error: '' @ m]"
    by (simp add: startup_event_def startup_event_try_def db_call_def print_def
        count_documents_all)
qed

theorem startup_never_aborts_witness:
  "db_research complete_world \<noteq> []
   \<and> db_research (snd (startup_event quiet_env complete_world)) = db_research complete_world
   \<and> db_fault count_fault_env 0 = Some (''no server'', 0)
   \<and> db_research (snd (startup_event count_fault_env empty_world)) = db_research empty_world
   \<and> stdout (snd (startup_event count_fault_env empty_world))
       = stdout empty_world @ [''Startup error: '' @ ''no server'']
   \<and> db_fault seed_fault_env 0 = None \<and> db_research empty_world = []
   \<and> db_fault seed_fault_env 1 = Some (''connection lost'', 2)
   \<and> db_research (snd (startup_event seed_fault_env empty_world))
       = take 2 (sample_data seed_fault_env)
   \<and> stdout (snd (startup_event seed_fault_env empty_world))
       = stdout empty_world @ [''Startup error: '' @ ''connection lost'']"
proof -
  have n: "db_research complete_world \<noteq> []" by (simp add: complete_world_def)
  have e: "db_research empty_world = []" by (simp add: empty_world_def)
  have c: "db_fault count_fault_env 0 = Some (''no server'', 0)"
    by (simp add: count_fault_env_def quiet_env_def)
  have s: "db_fault seed_fault_env 0 = None"
    "db_fault seed_fault_env 1 = Some (''connection lost'', 2)"
    by (simp_all add: seed_fault_env_def quiet_env_def)
  from n e c s
    startup_never_aborts [where e = quiet_env and w = complete_world]
    startup_never_aborts [where e = count_fault_env and w = empty_world
      and m = "''no server''" and n = 0]
    startup_never_aborts [where e = seed_fault_env and w = empty_world
      and m = "''connection lost''" and n = 2]
  show ?thesis by blast
qed

subsection \<open>Adding\<close>











































end
